theory Spec2Isabelle
  imports Main
begin

section \<open>The person repository of the Shopiz backend\<close>

text \<open>
  The repository module \<^verbatim>\<open>modules/persons/person.repository\<close> holds four one-statement
  functions over the \<^verbatim>\<open>persons\<close> table, written with the Kysely query builder. This
  theory embeds the two of them that select and update by primary key,
  \<^verbatim>\<open>findPersonById\<close> and \<^verbatim>\<open>updatePerson\<close>, together with the row shapes of
  \<^verbatim>\<open>shared/types\<close> and the table the repository's test suite creates:

  \<^verbatim>\<open>
  db.schema.createTable('persons')
    .addColumn('id', 'uuid', (cb) => cb.primaryKey().defaultTo(sql`gen_random_uuid()`))
    .addColumn('name', 'varchar', (cb) => cb.notNull())
    .addColumn('email', 'varchar(150)', (cb) => cb.notNull().unique())
    .addColumn('role_id', 'uuid')
    .addColumn('is_banned', 'boolean', (cb) => cb.notNull().defaultTo(false))
    ...
    .addForeignKeyConstraint('fk_role_id', ["role_id"], "roles", ["id"])
  \<close>

  The database handle \<^verbatim>\<open>db\<close> is imported from \<^verbatim>\<open>plugins/database\<close>; here it is
  the explicit state the functions take and return. Neither function validates its
  arguments or catches anything, so whatever the PostgreSQL server refuses rejects the
  promise: the functions return \<open>db_error + result\<close>. A statement goes through the
  server in four steps, and the first step that fails decides the error:
  \<^enum> it is parsed (an update with no assignment is a syntax error);
  \<^enum> its parameters are bound, each text read by the input function of its column type;
  \<^enum> it is planned, the parameters folded in as constants, which applies the length
    limit of \<^verbatim>\<open>varchar(150)\<close>;
  \<^enum> it is executed on the rows, which checks the keys.

  A lost connection is not modelled: the statements reach the server.
\<close>

subsection \<open>Texts\<close>

text \<open>
  A \<open>string\<close> is the list of the characters of a text: a \<open>char\<close> is one character
  (so the model covers the texts over the first 256 code points). The server takes no
  text with a NUL character.
\<close>

definition text_ok :: "string \<Rightarrow> bool" where
  "text_ok s \<longleftrightarrow> CHR 0x00 \<notin> set s"

subsection \<open>The uuid column type\<close>

text \<open>
  The server reads the text given for a \<^verbatim>\<open>uuid\<close> column with its input function: an
  optional opening brace, then sixteen bytes of two hexadecimal digits each, in either
  case, with one optional hyphen after every second byte but the last, then the closing
  brace if there was an opening one, and nothing more. It prints a uuid in lower case as
  8-4-4-4-12 digits; that text is what a selected row holds in \<^verbatim>\<open>id\<close>, and what this
  theory takes as the value of a uuid.
\<close>

definition isxdigit :: "char \<Rightarrow> bool" where
  "isxdigit c \<longleftrightarrow> c \<in> set ''0123456789abcdefABCDEF''"

definition lower_hex :: "char \<Rightarrow> char" where
  "lower_hex c =
     (if c = CHR ''A'' then CHR ''a'' else if c = CHR ''B'' then CHR ''b''
      else if c = CHR ''C'' then CHR ''c'' else if c = CHR ''D'' then CHR ''d''
      else if c = CHR ''E'' then CHR ''e'' else if c = CHR ''F'' then CHR ''f'' else c)"

text \<open>
  The loop over the byte positions \<open>0, \<dots>, 15\<close>: the digits read so far in lower
  case, and the rest of the text; \<open>None\<close> at a syntax error.
\<close>

fun uuid_bytes :: "nat list \<Rightarrow> string \<Rightarrow> (string \<times> string) option" where
  "uuid_bytes [] src = Some ([], src)"
| "uuid_bytes (i # positions) (a # b # src) =
     (if isxdigit a \<and> isxdigit b then
        (case uuid_bytes positions
                (case src of
                   c # src' \<Rightarrow> if c = CHR ''-'' \<and> i mod 2 = 1 \<and> i < 15 then src' else src
                 | [] \<Rightarrow> src)
         of None \<Rightarrow> None
          | Some (digits, rest) \<Rightarrow> Some (lower_hex a # lower_hex b # digits, rest))
      else None)"
| "uuid_bytes (i # positions) src = None"

definition uuid_out :: "string \<Rightarrow> string" where
  "uuid_out digits =
     take 8 digits @ ''-'' @ take 4 (drop 8 digits) @ ''-'' @ take 4 (drop 12 digits) @ ''-''
       @ take 4 (drop 16 digits) @ ''-'' @ drop 20 digits"

definition uuid_in :: "string \<Rightarrow> string option" where
  "uuid_in source =
     (case source of
        c # src \<Rightarrow>
          (if c = CHR ''{'' then
             (case uuid_bytes [0..<16] src of
                Some (digits, [e]) \<Rightarrow> if e = CHR ''}'' then Some (uuid_out digits) else None
              | _ \<Rightarrow> None)
           else
             (case uuid_bytes [0..<16] source of
                Some (digits, []) \<Rightarrow> Some (uuid_out digits)
              | _ \<Rightarrow> None))
      | [] \<Rightarrow> None)"

subsection \<open>The varchar(150) column type\<close>

text \<open>
  A text of more than 150 characters is stored cut to 150 when the excess is spaces only,
  and refused otherwise.
\<close>

definition varchar_150 :: "string \<Rightarrow> string option" where
  "varchar_150 s =
     (if length s \<le> 150 then Some s
      else if list_all (\<lambda>c. c = CHR '' '') (drop 150 s) then Some (take 150 s)
      else None)"

subsection \<open>Row shapes\<close>

text \<open>
  \<^verbatim>\<open>Date\<close> values are kept as milliseconds since the epoch. The column \<^verbatim>\<open>id\<close> is
  written \<open>id'\<close>, since \<open>id\<close> is the identity function of HOL.
\<close>

type_synonym timestamp = int

text \<open>\<^verbatim>\<open>Role = Selectable<RoleTable>\<close>\<close>

record role =
  role_ident :: string
  role_name :: string
  description :: string
  role_created_at :: timestamp
  role_updated_at :: timestamp

text \<open>\<^verbatim>\<open>Person = Selectable<PersonTable>\<close>\<close>

record person =
  id' :: string
  name :: string
  email :: string
  role_id :: string
  is_banned :: bool
  created_at :: timestamp
  updated_at :: timestamp

text \<open>
  \<^verbatim>\<open>UpdatePerson = Updateable<PersonTable>\<close>: every column is optional, and the two
  timestamp columns have the update type \<^verbatim>\<open>never\<close>, so a change object cannot carry
  them. A column left out (or \<^verbatim>\<open>undefined\<close>, which the query builder drops) is
  \<open>None\<close>.
\<close>

record update_person =
  upd_id :: "string option"
  upd_name :: "string option"
  upd_email :: "string option"
  upd_role_id :: "string option"
  upd_is_banned :: "bool option"

text \<open>
  \<^verbatim>\<open>interface Database { persons: PersonTable, roles: RoleTable }\<close>. A table is the list
  of its rows, each as a select returns it (uuid columns as the server prints them). The
  order of the list stands for the order in which the server happens to scan the rows;
  a selection by primary key has at most one row, so nothing below rests on it.
\<close>

record database =
  persons :: "person list"
  roles :: "role list"

subsection \<open>What the server refuses\<close>

datatype db_error =
    SyntaxError  \<comment> \<open>42601: the statement does not parse\<close>
  | ParameterRefused  \<comment> \<open>a parameter's text is refused as it is bound: 22P02 for a text that
      is not a uuid, 22021 for a text with a NUL character\<close>
  | StringDataRightTruncation  \<comment> \<open>22001: value too long for \<^verbatim>\<open>varchar(150)\<close>\<close>
  | UniqueViolation  \<comment> \<open>23505: primary key on \<^verbatim>\<open>id\<close>, unique \<^verbatim>\<open>email\<close>\<close>
  | ForeignKeyViolation  \<comment> \<open>23503: \<^verbatim>\<open>fk_role_id\<close>\<close>

subsection \<open>The query builder\<close>

text \<open>
  \<^verbatim>\<open>.where('id', '=', id)\<close>, once the id text is bound as the uuid \<open>u\<close>: the rows
  whose id is that uuid.
\<close>

definition where_id :: "string \<Rightarrow> person \<Rightarrow> bool" where
  "where_id u p \<longleftrightarrow> id' p = u"

text \<open>\<^verbatim>\<open>.executeTakeFirst()\<close>: the first row of the result, \<^verbatim>\<open>undefined\<close> when it is empty.\<close>

definition executeTakeFirst :: "'a list \<Rightarrow> 'a option" where
  "executeTakeFirst rows = (case rows of [] \<Rightarrow> None | r # _ \<Rightarrow> Some r)"

text \<open>
  \<^verbatim>\<open>.set(updatePerson)\<close> compiles to one assignment for each column the change object
  defines; with none the statement is \<^verbatim>\<open>update "persons" set where "id" = $1\<close>.
\<close>

definition defines_column :: "update_person \<Rightarrow> bool" where
  "defines_column chg \<longleftrightarrow>
     upd_id chg \<noteq> None \<or> upd_name chg \<noteq> None \<or> upd_email chg \<noteq> None \<or>
     upd_role_id chg \<noteq> None \<or> upd_is_banned chg \<noteq> None"

text \<open>The texts of a change object that the server takes as parameters.\<close>

definition accepted_text :: "string option \<Rightarrow> bool" where
  "accepted_text v = (case v of None \<Rightarrow> True | Some t \<Rightarrow> text_ok t)"

definition accepted_uuid :: "string option \<Rightarrow> bool" where
  "accepted_uuid v = (case v of None \<Rightarrow> True | Some t \<Rightarrow> uuid_in t \<noteq> None)"

definition bind_uuid :: "string option \<Rightarrow> string option" where
  "bind_uuid v = (case v of None \<Rightarrow> None | Some t \<Rightarrow> uuid_in t)"

text \<open>
  Binding the parameters of the update: the change object with its uuid columns as the
  server holds them, and the uuid of the id text.
\<close>

definition bind_parameters :: "update_person \<Rightarrow> string \<Rightarrow> db_error + update_person \<times> string" where
  "bind_parameters chg i =
     (if accepted_text (upd_name chg) \<and> accepted_text (upd_email chg) \<and>
         accepted_uuid (upd_id chg) \<and> accepted_uuid (upd_role_id chg)
      then
        (case uuid_in i of
           None \<Rightarrow> Inl ParameterRefused
         | Some u \<Rightarrow>
             Inr (chg\<lparr> upd_id := bind_uuid (upd_id chg),
                       upd_role_id := bind_uuid (upd_role_id chg) \<rparr>, u))
      else Inl ParameterRefused)"

text \<open>Planning the update: the new email is brought to \<^verbatim>\<open>varchar(150)\<close>.\<close>

definition coerce_email :: "update_person \<Rightarrow> db_error + update_person" where
  "coerce_email chg =
     (case upd_email chg of
        None \<Rightarrow> Inr chg
      | Some e \<Rightarrow>
          (case varchar_150 e of
             None \<Rightarrow> Inl StringDataRightTruncation
           | Some e' \<Rightarrow> Inr (chg\<lparr> upd_email := Some e' \<rparr>)))"

text \<open>
  The change objects whose values the server takes: texts without a NUL character, uuid
  texts for the two uuid columns, and an email that fits \<^verbatim>\<open>varchar(150)\<close>.
\<close>

definition accepted_changes :: "update_person \<Rightarrow> bool" where
  "accepted_changes chg \<longleftrightarrow>
     accepted_text (upd_name chg) \<and> accepted_text (upd_email chg) \<and>
     accepted_uuid (upd_id chg) \<and> accepted_uuid (upd_role_id chg) \<and>
     (case upd_email chg of None \<Rightarrow> True | Some e \<Rightarrow> varchar_150 e \<noteq> None)"

text \<open>The assignments on one row: the defined columns of the change object replace the row's.\<close>

definition set_columns :: "update_person \<Rightarrow> person \<Rightarrow> person" where
  "set_columns u p =
     p\<lparr> id' := (case upd_id u of None \<Rightarrow> id' p | Some v \<Rightarrow> v),
        name := (case upd_name u of None \<Rightarrow> name p | Some v \<Rightarrow> v),
        email := (case upd_email u of None \<Rightarrow> email p | Some v \<Rightarrow> v),
        role_id := (case upd_role_id u of None \<Rightarrow> role_id p | Some v \<Rightarrow> v),
        is_banned := (case upd_is_banned u of None \<Rightarrow> is_banned p | Some v \<Rightarrow> v) \<rparr>"

text \<open>
  The update of the selected rows of one table. The server does not overwrite a row: it
  writes the new version after the rows already stored, so an unordered select then
  returns the rewritten rows last. The rows the statement leaves alone, and the new
  versions it writes:
\<close>

definition kept_rows :: "(person \<Rightarrow> bool) \<Rightarrow> person list \<Rightarrow> person list" where
  "kept_rows sel rows = filter (\<lambda>p. \<not> sel p) rows"

definition written_rows :: "(person \<Rightarrow> bool) \<Rightarrow> (person \<Rightarrow> person) \<Rightarrow> person list \<Rightarrow> person list" where
  "written_rows sel f rows = map f (filter sel rows)"

definition update_rows :: "(person \<Rightarrow> bool) \<Rightarrow> (person \<Rightarrow> person) \<Rightarrow> person list \<Rightarrow> person list" where
  "update_rows sel f rows = kept_rows sel rows @ written_rows sel f rows"

text \<open>
  The keys, checked for the rows the update wrote: the new version at position \<open>k\<close>
  must share its id and its email with no other row of the table. (A selection by primary
  key writes at most one row.)
\<close>

definition unique_violation :: "person list \<Rightarrow> person list \<Rightarrow> bool" where
  "unique_violation kept written \<longleftrightarrow>
     list_ex (\<lambda>k.
        list_ex (\<lambda>r. id' r = id' (written ! k) \<or> email r = email (written ! k))
          (kept @ take k written @ drop (Suc k) written))
       [0..<length written]"

text \<open>A role id written to a row must be the id of a role.\<close>

definition foreign_key_violation :: "update_person \<Rightarrow> person list \<Rightarrow> role list \<Rightarrow> bool" where
  "foreign_key_violation chg written rs \<longleftrightarrow>
     written \<noteq> [] \<and>
     (case upd_role_id chg of None \<Rightarrow> False | Some r \<Rightarrow> r \<notin> set (map role_ident rs))"

subsection \<open>The repository functions\<close>

text \<open>
  \<^verbatim>\<open>
  export async function findPersonById(id: string) {
      return await db.selectFrom('persons')
      .where('id', '=', id)
      .selectAll()
      .executeTakeFirst();
  }
  \<close>
  The id text is the one parameter of the statement. (A text with a NUL character is no
  uuid text, so \<open>uuid_in\<close> refuses it as well.)
\<close>

definition findPersonById :: "database \<Rightarrow> string \<Rightarrow> db_error + person option" where
  "findPersonById db i =
     (case uuid_in i of
        None \<Rightarrow> Inl ParameterRefused
      | Some u \<Rightarrow> Inr (executeTakeFirst (filter (where_id u) (persons db))))"

text \<open>
  \<^verbatim>\<open>
  export async function updatePerson(id: string, updatePerson: UpdatePerson) {
      await db.updateTable('persons').set(updatePerson).where('id', '=', id).execute();
  }
  \<close>
  The function has no \<^verbatim>\<open>return\<close>: when the statement succeeds its promise resolves
  to \<^verbatim>\<open>undefined\<close>, the unit value here, next to the database after the statement.
\<close>

definition updatePerson :: "database \<Rightarrow> string \<Rightarrow> update_person \<Rightarrow> db_error + unit \<times> database" where
  "updatePerson db i chg =
     (if \<not> defines_column chg then Inl SyntaxError
      else
        (case bind_parameters chg i of
           Inl e \<Rightarrow> Inl e
         | Inr (bound, u) \<Rightarrow>
             (case coerce_email bound of
                Inl e \<Rightarrow> Inl e
              | Inr new \<Rightarrow>
                  (let kept = kept_rows (where_id u) (persons db);
                       written = written_rows (where_id u) (set_columns new) (persons db)
                   in if unique_violation kept written then Inl UniqueViolation
                      else if foreign_key_violation new written (roles db)
                        then Inl ForeignKeyViolation
                      else Inr ((), db\<lparr> persons :=
                          update_rows (where_id u) (set_columns new) (persons db) \<rparr>)))))"

subsection \<open>Sample data\<close>

text \<open>The rows that the repository's test suite creates, with fixed ids and timestamps.\<close>

definition john :: person where
  "john = \<lparr> id' = ''11111111-1111-1111-1111-111111111111'', name = ''John Doe'',
            email = ''john@example.com'', role_id = ''aaaaaaaa-aaaa-aaaa-aaaa-aaaaaaaaaaaa'',
            is_banned = False, created_at = 1000, updated_at = 1000 \<rparr>"

definition alice :: person where
  "alice = \<lparr> id' = ''22222222-2222-2222-2222-22222222abcd'', name = ''Alice Toe'',
             email = ''alice@example.com'', role_id = ''aaaaaaaa-aaaa-aaaa-aaaa-aaaaaaaaaaaa'',
             is_banned = False, created_at = 2000, updated_at = 2000 \<rparr>"

definition user_role :: role where
  "user_role = \<lparr> role_ident = ''aaaaaaaa-aaaa-aaaa-aaaa-aaaaaaaaaaaa'', role_name = ''USER'',
                 description = ''Regular user'', role_created_at = 500, role_updated_at = 500 \<rparr>"

definition sample_db :: database where
  "sample_db = \<lparr> persons = [john, alice], roles = [user_role] \<rparr>"

definition missing_id :: string where
  "missing_id = ''00000000-0000-0000-0000-000000000000''"



definition jack_banned :: update_person where
  "jack_banned = \<lparr> upd_id = None, upd_name = Some ''Jack Smith'', upd_email = None,
                   upd_role_id = None, upd_is_banned = Some True \<rparr>"

definition new_name_banned :: update_person where
  "new_name_banned = \<lparr> upd_id = None, upd_name = Some ''New Name'', upd_email = None,
                       upd_role_id = None, upd_is_banned = Some True \<rparr>"

text \<open>The change object \<^verbatim>\<open>{}\<close>.\<close>

definition no_change :: update_person where
  "no_change = \<lparr> upd_id = None, upd_name = None, upd_email = None,
                 upd_role_id = None, upd_is_banned = None \<rparr>"

section \<open>Properties of the uuid input\<close>

text \<open>
  Every character that the loop consumes is a hexadecimal digit or a hyphen, so a text
  that \<open>uuid_in\<close> accepts has no NUL character.
\<close>

lemma uuid_bytes_chars:
  "uuid_bytes positions src = Some (digits, rest) \<Longrightarrow>
   set src \<subseteq> {c. isxdigit c} \<union> {CHR ''-''} \<union> set rest"
proof (induction positions src arbitrary: digits rest rule: uuid_bytes.induct)
  case (1 src)
  then show ?case by auto
next
  case (2 i positions a b src)
  from "2.prems" have hex: "isxdigit a" "isxdigit b"
    by (auto split: if_splits)
  let ?src' = "case src of
      c # src' \<Rightarrow> if c = CHR ''-'' \<and> i mod 2 = 1 \<and> i < 15 then src' else src
    | [] \<Rightarrow> src"
  from "2.prems" hex obtain ds where rec: "uuid_bytes positions ?src' = Some (ds, rest)"
    by (auto split: option.splits)
  with hex have "set ?src' \<subseteq> {c. isxdigit c} \<union> {CHR ''-''} \<union> set rest"
    by (intro "2.IH") auto
  moreover have "set src \<subseteq> {CHR ''-''} \<union> set ?src'"
    by (auto split: list.splits if_splits)
  ultimately show ?case
    using hex by auto
qed simp_all

lemma isxdigit_not_NUL: "\<not> isxdigit (CHR 0x00)"
  by (simp add: isxdigit_def)

lemma uuid_in_text_ok: "uuid_in t = Some u \<Longrightarrow> text_ok t"
proof -
  assume accepted: "uuid_in t = Some u"
  then obtain c src where t: "t = c # src"
    by (cases t) (auto simp: uuid_in_def)
  show ?thesis
  proof (cases "c = CHR ''{''")
    case True
    with accepted t obtain digits e where
      "uuid_bytes [0..<16] src = Some (digits, [e])" and "e = CHR ''}''"
      by (auto simp: uuid_in_def split: option.splits list.splits if_splits)
    then have "set src \<subseteq> {c. isxdigit c} \<union> {CHR ''-''} \<union> {CHR ''}''}"
      using uuid_bytes_chars [of "[0..<16]" src digits "[e]"] by simp
    with True t show ?thesis
      using isxdigit_not_NUL by (auto simp: text_ok_def)
  next
    case False
    with accepted t obtain digits where "uuid_bytes [0..<16] t = Some (digits, [])"
      by (auto simp: uuid_in_def split: option.splits list.splits if_splits)
    then have "set t \<subseteq> {c. isxdigit c} \<union> {CHR ''-''}"
      using uuid_bytes_chars [of "[0..<16]" t digits "[]"] by simp
    then show ?thesis
      using isxdigit_not_NUL by (auto simp: text_ok_def)
  qed
qed

section \<open>Properties of the query builder\<close>




lemma kept_rows_none_selected:
  "\<forall>p \<in> set rows. \<not> sel p \<Longrightarrow> kept_rows sel rows = rows"
  by (induction rows) (auto simp: kept_rows_def)

lemma written_rows_none_selected:
  "\<forall>p \<in> set rows. \<not> sel p \<Longrightarrow> written_rows sel f rows = []"
  by (induction rows) (auto simp: written_rows_def)

lemma update_rows_none_selected:
  "\<forall>p \<in> set rows. \<not> sel p \<Longrightarrow> update_rows sel f rows = rows"
  by (simp add: update_rows_def kept_rows_none_selected written_rows_none_selected)

lemma update_rows_length: "length (update_rows sel f rows) = length rows"
  by (induction rows) (auto simp: update_rows_def kept_rows_def written_rows_def)

lemma unique_violation_nothing_written: "\<not> unique_violation kept []"
  by (simp add: unique_violation_def)

lemma foreign_key_violation_nothing_written: "\<not> foreign_key_violation chg [] rs"
  by (simp add: foreign_key_violation_def)

lemma bind_parameters_accepted:
  "accepted_changes chg \<Longrightarrow> uuid_in i = Some u \<Longrightarrow>
   bind_parameters chg i =
     Inr (chg\<lparr> upd_id := bind_uuid (upd_id chg), upd_role_id := bind_uuid (upd_role_id chg) \<rparr>, u)"
  by (simp add: bind_parameters_def accepted_changes_def)

lemma coerce_email_accepted:
  "(case upd_email chg of None \<Rightarrow> True | Some e \<Rightarrow> varchar_150 e \<noteq> None) \<Longrightarrow>
   \<exists>new. coerce_email chg = Inr new"
  by (auto simp: coerce_email_def split: option.splits)

section \<open>What the server refuses, whatever the table holds\<close>

lemma findPersonById_refused_id:
  "uuid_in i = None \<Longrightarrow> findPersonById db i = Inl ParameterRefused"
  by (simp add: findPersonById_def)

lemma updatePerson_no_column:
  "\<not> defines_column chg \<Longrightarrow> updatePerson db i chg = Inl SyntaxError"
  by (simp add: updatePerson_def)

lemma updatePerson_refused_id:
  "defines_column chg \<Longrightarrow> uuid_in i = None \<Longrightarrow> updatePerson db i chg = Inl ParameterRefused"
  by (simp add: updatePerson_def bind_parameters_def)

text \<open>
  The update of a stored row, its id given in another spelling, is seen by the next
  lookup: the repository test that renames John Doe to Jack Smith and bans him.
\<close>

lemma update_existing_sample:
  "(case updatePerson sample_db ''11111111111111111111111111111111'' jack_banned of
      Inl e \<Rightarrow> False
    | Inr (r, db') \<Rightarrow>
        findPersonById db' (id' john)
          = Inr (Some (john\<lparr> name := ''Jack Smith'', is_banned := True \<rparr>)))"
  by code_simp

section \<open>The claims about the person repository\<close>




text \<open>
  Claim C10, as the specification states it: for every id that matches no row,
  \<^verbatim>\<open>updatePerson(id, changes)\<close> completes without error. It fails at the change object
  \<^verbatim>\<open>{}\<close>: the id of the test suite matches no row, it is a uuid text, and the call
  rejects with a syntax error.
\<close>

theorem updatePerson_no_change_rejects:
  "uuid_in missing_id = Some missing_id \<and>
   missing_id \<notin> set (map id' (persons sample_db)) \<and>
   updatePerson sample_db missing_id no_change \<noteq> Inr ((), sample_db) \<and>
   updatePerson sample_db missing_id no_change = Inl SyntaxError"
  by code_simp

text \<open>
  Claim C10, amended. For every id text that the uuid column accepts and whose uuid no
  row of the persons table has, and for every change object that defines at least one
  column and whose values the server takes, \<^verbatim>\<open>updatePerson\<close> completes without error,
  resolves to no value (\<^verbatim>\<open>undefined\<close>, the unit value), and leaves the database, so
  every row of the persons table, as it was. Every call that succeeds, the update of a
  stored row too, resolves to that same value, so the caller cannot tell the two apart by
  it.
\<close>

theorem updatePerson_missing_is_noop:
  assumes "uuid_in i = Some u"
    and "\<forall>p \<in> set (persons db). id' p \<noteq> u"
    and "defines_column chg"
    and "accepted_changes chg"
  shows "updatePerson db i chg = Inr ((), db) \<and>
         (\<forall>db2 j chg2 r db2'. updatePerson db2 j chg2 = Inr (r, db2') \<longrightarrow> r = ())"
proof -
  let ?bound = "chg\<lparr> upd_id := bind_uuid (upd_id chg), upd_role_id := bind_uuid (upd_role_id chg) \<rparr>"
  from assms(4,1) have bound: "bind_parameters chg i = Inr (?bound, u)"
    by (rule bind_parameters_accepted)
  from assms(4) have "case upd_email ?bound of None \<Rightarrow> True | Some e \<Rightarrow> varchar_150 e \<noteq> None"
    by (simp add: accepted_changes_def)
  then obtain new where new: "coerce_email ?bound = Inr new"
    using coerce_email_accepted by blast
  from assms(2) have none: "\<forall>p \<in> set (persons db). \<not> where_id u p"
    by (simp add: where_id_def)
  then have rows: "update_rows (where_id u) (set_columns new) (persons db) = persons db"
    by (rule update_rows_none_selected)
  from none have written: "written_rows (where_id u) (set_columns new) (persons db) = []"
    by (rule written_rows_none_selected)
  from assms(3) bound new rows written have "updatePerson db i chg = Inr ((), db)"
    by (simp add: updatePerson_def unique_violation_nothing_written
        foreign_key_violation_nothing_written)
  then show ?thesis
    by simp
qed

theorem updatePerson_missing_is_noop_witness:
  "uuid_in missing_id = Some missing_id \<and>
   missing_id \<notin> set (map id' (persons sample_db)) \<and>
   defines_column new_name_banned \<and>
   accepted_changes new_name_banned \<and>
   updatePerson sample_db missing_id new_name_banned = Inr ((), sample_db)"
proof -
  have missing: "uuid_in missing_id = Some missing_id"
    by code_simp
  have no_key: "missing_id \<notin> set (map id' (persons sample_db))"
    by code_simp
  then have absent: "\<forall>p \<in> set (persons sample_db). id' p \<noteq> missing_id"
    by (force simp: image_iff)
  have defined: "defines_column new_name_banned"
    by code_simp
  have accepted: "accepted_changes new_name_banned"
    by code_simp
  from updatePerson_missing_is_noop [OF missing absent defined accepted]
  have "updatePerson sample_db missing_id new_name_banned = Inr ((), sample_db)"
    by blast
  with missing no_key defined accepted show ?thesis
    by blast
qed

end
